theory Spec2Isabelle
  imports Complex_Main
begin

section \<open>Values: floats as range-checked reals, numpy scalars and arrays\<close>

text \<open>
  The library \<open>grbpop/functional_forms.py\<close> is twelve closed formulas over numpy values.
  A float64 is modelled by the real number it stands for, and a decimal literal such as
  \<open>0.320\<close> is the real \<open>0.32\<close>. The range of float64 is modelled, its rounding is not:
  the result of an operation is
  \<^item> \<open>None\<close> when its magnitude reaches \<open>2^1024\<close> (overflow: the float is \<open>inf\<close>),
  \<^item> \<open>Some 0\<close> when its magnitude is below \<open>2^-1075\<close> (underflow: the float is \<open>0.0\<close>),
  \<^item> \<open>Some r\<close> otherwise, with \<open>r\<close> the exact real result.
  So \<open>Some r\<close> stands for the float next to \<open>r\<close>, up to the rounding error gathered on the
  way, and the two thresholds are exact only up to such an error.

  A value computed by numpy is such a \<open>real option\<close>. \<open>None\<close>: some operation on the way
  left the finite reals (overflow, division by zero, zero to a negative power, a negative
  base to a non-integer power: numpy gives \<open>inf\<close> or \<open>nan\<close> there and warns without raising),
  and the value is not followed any further.
\<close>

type_synonym fl = "real option"

definition rng :: "real \<Rightarrow> fl" where
  "rng r = (if 2 ^ 1024 \<le> \<bar>r\<bar> then None
            else if \<bar>r\<bar> < 1 / 2 ^ 1075 then Some 0
            else Some r)"

text \<open>A real that an operation returns unchanged: no overflow, no underflow.\<close>

definition in_range :: "real \<Rightarrow> bool" where
  "in_range r \<longleftrightarrow> (r = 0 \<or> 1 / 2 ^ 1075 \<le> \<bar>r\<bar>) \<and> \<bar>r\<bar> < 2 ^ 1024"

text \<open>
  Float \<open>+\<close>, \<open>-\<close>, \<open>*\<close> behave alike in numpy and on Python floats (overflow gives \<open>inf\<close>
  silently); the same functions model both.
\<close>

fun f_add :: "fl \<Rightarrow> fl \<Rightarrow> fl" where
  "f_add (Some a) (Some b) = rng (a + b)"
| "f_add _ _ = None"

fun f_sub :: "fl \<Rightarrow> fl \<Rightarrow> fl" where
  "f_sub (Some a) (Some b) = rng (a - b)"
| "f_sub _ _ = None"

fun f_mul :: "fl \<Rightarrow> fl \<Rightarrow> fl" where
  "f_mul (Some a) (Some b) = rng (a * b)"
| "f_mul _ _ = None"

fun f_div :: "fl \<Rightarrow> fl \<Rightarrow> fl" where
  "f_div (Some a) (Some b) = (if b = 0 then None else rng (a / b))"
| "f_div _ _ = None"

fun f_neg :: "fl \<Rightarrow> fl" where
  "f_neg (Some a) = Some (- a)"
| "f_neg None = None"

fun f_exp :: "fl \<Rightarrow> fl" where
  "f_exp (Some a) = rng (exp a)"
| "f_exp None = None"

text \<open>
  The power \<open>x ** y\<close> as a real number, where it is one: anything to the power 0 is 1; a
  positive base has the real power; zero to a positive power is 0 and to a negative power
  is undefined; a negative base has a real power only at an integer exponent.
\<close>

definition pow_real :: "real \<Rightarrow> real \<Rightarrow> real option" where
  "pow_real x y =
     (if y = 0 then Some 1
      else if 0 < x then Some (x powr y)
      else if x = 0 then (if 0 < y then Some 0 else None)
      else if of_int \<lfloor>y\<rfloor> = y then Some (x powi \<lfloor>y\<rfloor>)
      else None)"

text \<open>
  The numpy power of two finite floats: undefined powers are \<open>inf\<close> or \<open>nan\<close>, the others
  overflow or underflow like every result. With an operand that is not finite the power is
  still 1 for the exponent 0 and for the base 1.
\<close>

definition real_pow :: "real \<Rightarrow> real \<Rightarrow> fl" where
  "real_pow x y = (case pow_real x y of None \<Rightarrow> None | Some r \<Rightarrow> rng r)"

definition f_pow :: "fl \<Rightarrow> fl \<Rightarrow> fl" where
  "f_pow x y =
     (if y = Some 0 \<or> x = Some 1 then Some 1
      else case (x, y) of (Some a, Some b) \<Rightarrow> real_pow a b | _ \<Rightarrow> None)"

fun f_le :: "fl \<Rightarrow> fl \<Rightarrow> bool option" where
  "f_le (Some a) (Some b) = Some (a \<le> b)"
| "f_le _ _ = None"

fun f_ge :: "fl \<Rightarrow> fl \<Rightarrow> bool option" where
  "f_ge (Some a) (Some b) = Some (a \<ge> b)"
| "f_ge _ _ = None"

fun f_where :: "bool option \<Rightarrow> fl \<times> fl \<Rightarrow> fl" where
  "f_where (Some c) (a, b) = (if c then a else b)"
| "f_where None _ = None"

text \<open>
  A numpy value is a scalar (shape \<open>()\<close>: a float or a zero-dimensional array, which
  \<open>np.where\<close> returns for a scalar condition) or a one-dimensional array (shape \<open>(N,)\<close>).
  \<open>BroadcastError\<close> stands for the exception numpy raises when two arrays of different
  lengths, neither of length 1, meet in one operation; an operation with such an operand
  passes it on.
\<close>

datatype 'a nd = Sc 'a | Arr "'a list" | BroadcastError

fun broadcast2 :: "('a \<Rightarrow> 'b \<Rightarrow> 'c) \<Rightarrow> 'a nd \<Rightarrow> 'b nd \<Rightarrow> 'c nd" where
  "broadcast2 f (Sc x) (Sc y) = Sc (f x y)"
| "broadcast2 f (Sc x) (Arr ys) = Arr (map (f x) ys)"
| "broadcast2 f (Arr xs) (Sc y) = Arr (map (\<lambda>x. f x y) xs)"
| "broadcast2 f (Arr xs) (Arr ys) =
     (if length xs = length ys then Arr (map2 f xs ys)
      else if length xs = 1 then Arr (map (f (hd xs)) ys)
      else if length ys = 1 then Arr (map (\<lambda>x. f x (hd ys)) xs)
      else BroadcastError)"
| "broadcast2 f _ _ = BroadcastError"

definition np_add :: "fl nd \<Rightarrow> fl nd \<Rightarrow> fl nd" where
  "np_add = broadcast2 f_add"

definition np_sub :: "fl nd \<Rightarrow> fl nd \<Rightarrow> fl nd" where
  "np_sub = broadcast2 f_sub"

definition np_mul :: "fl nd \<Rightarrow> fl nd \<Rightarrow> fl nd" where
  "np_mul = broadcast2 f_mul"

definition np_div :: "fl nd \<Rightarrow> fl nd \<Rightarrow> fl nd" where
  "np_div = broadcast2 f_div"

definition np_pow :: "fl nd \<Rightarrow> fl nd \<Rightarrow> fl nd" where
  "np_pow = broadcast2 f_pow"

definition np_neg :: "fl nd \<Rightarrow> fl nd" where
  "np_neg = map_nd f_neg"

definition np_exp :: "fl nd \<Rightarrow> fl nd" where
  "np_exp = map_nd f_exp"

definition np_le :: "fl nd \<Rightarrow> fl nd \<Rightarrow> bool option nd" where
  "np_le = broadcast2 f_le"

definition np_ge :: "fl nd \<Rightarrow> fl nd \<Rightarrow> bool option nd" where
  "np_ge = broadcast2 f_ge"

text \<open>\<open>np.where(c, a, b)\<close>: both branches are computed, the three operands broadcast.\<close>

definition np_where :: "bool option nd \<Rightarrow> fl nd \<Rightarrow> fl nd \<Rightarrow> fl nd" where
  "np_where c a b = broadcast2 f_where c (broadcast2 Pair a b)"

text \<open>
  A float parameter or literal as a numpy operand, and the independent variable: a numpy
  scalar or array of finite floats (with a plain Python float for \<open>z\<close>, the formulas that
  call no numpy function would raise where numpy warns and gives \<open>inf\<close>).
\<close>

definition flt :: "real \<Rightarrow> fl nd" where
  "flt a = Sc (Some a)"

definition val :: "real nd \<Rightarrow> fl nd" where
  "val z = map_nd Some z"

fun shape_of :: "'a nd \<Rightarrow> nat list option" where
  "shape_of (Sc x) = Some []"
| "shape_of (Arr xs) = Some [length xs]"
| "shape_of BroadcastError = None"

fun nd_all :: "('a \<Rightarrow> bool) \<Rightarrow> 'a nd \<Rightarrow> bool" where
  "nd_all P (Sc x) = P x"
| "nd_all P (Arr xs) = list_all P xs"
| "nd_all P BroadcastError = False"


text \<open>
  A computed value that is a real inside the interval from \<open>lo\<close> to \<open>hi\<close>, and the
  powers of two that serve as its bounds.
\<close>

definition p2 :: "int \<Rightarrow> real" where
  "p2 k = 2 powi k"

fun bounded :: "real \<Rightarrow> real \<Rightarrow> fl \<Rightarrow> bool" where
  "bounded lo hi (Some r) = (lo \<le> r \<and> r \<le> hi)"
| "bounded lo hi None = False"

subsection \<open>Python scalars\<close>

text \<open>
  Expressions over the parameters alone are Python float arithmetic. Its \<open>**\<close> and \<open>/\<close>
  raise where numpy warns: \<open>0.0 ** y\<close> with \<open>y < 0\<close> and \<open>x / 0.0\<close> raise
  ZeroDivisionError, and a power that overflows raises OverflowError (one that underflows is
  \<open>0.0\<close>, and a quotient that overflows is \<open>inf\<close>, both silently). A negative base to a
  non-integer power is a complex number in Python 3; it is outside the reals and is \<open>None\<close>
  here. The parameters themselves are finite floats, read as reals.
\<close>

datatype error = ValueError string | ZeroDivisionError | OverflowError

definition py_pow :: "fl \<Rightarrow> fl \<Rightarrow> error + fl" where
  "py_pow x y =
     (if y = Some 0 \<or> x = Some 1 then Inr (Some 1)
      else case (x, y) of
        (Some a, Some b) \<Rightarrow>
          if a = 0 \<and> b < 0 then Inl ZeroDivisionError
          else (case pow_real a b of
                  None \<Rightarrow> Inr None
                | Some r \<Rightarrow> if 2 ^ 1024 \<le> \<bar>r\<bar> then Inl OverflowError else Inr (rng r))
      | _ \<Rightarrow> Inr None)"

definition py_div :: "fl \<Rightarrow> fl \<Rightarrow> error + fl" where
  "py_div x y =
     (if y = Some 0 then Inl ZeroDivisionError
      else case (x, y) of (Some a, Some b) \<Rightarrow> Inr (rng (a / b)) | _ \<Rightarrow> Inr None)"

definition bind_err :: "error + 'a \<Rightarrow> ('a \<Rightarrow> error + 'b) \<Rightarrow> error + 'b" where
  "bind_err m f = (case m of Inl e \<Rightarrow> Inl e | Inr x \<Rightarrow> f x)"

section \<open>The functional forms\<close>

definition Schechter_log :: "real nd \<Rightarrow> real \<Rightarrow> real \<Rightarrow> fl nd" where
  "Schechter_log logL logLbreak slope =
     (let x = np_pow (flt 10) (np_sub (val logL) (flt logLbreak));
          Sch = np_mul (np_pow x (Sc (f_sub (Some 1) (Some slope)))) (np_exp (np_neg x))
      in Sch)"

text \<open>
  The two branch expressions of \<open>BPL_lum\<close>, as functions of \<open>x\<close>; \<open>np.where\<close>
  selects between them.
\<close>

definition BPL_lum_low :: "fl nd \<Rightarrow> real \<Rightarrow> fl nd" where
  "BPL_lum_low x slopeL = np_pow x (Sc (f_sub (Some 1) (Some slopeL)))"

definition BPL_lum_high :: "fl nd \<Rightarrow> real \<Rightarrow> fl nd" where
  "BPL_lum_high x slopeH = np_pow x (Sc (f_sub (Some 1) (Some slopeH)))"

definition BPL_lum :: "real nd \<Rightarrow> real \<Rightarrow> real \<Rightarrow> real \<Rightarrow> fl nd" where
  "BPL_lum logL logLbreak slopeL slopeH =
     (let x = np_pow (flt 10) (np_sub (val logL) (flt logLbreak));
          BPL_func = np_where (np_le x (flt 1)) (BPL_lum_low x slopeL) (BPL_lum_high x slopeH)
      in BPL_func)"

definition SH03 :: "real nd \<Rightarrow> real \<Rightarrow> real \<Rightarrow> real \<Rightarrow> real \<Rightarrow> real \<Rightarrow> fl nd" where
  "SH03 z a b zm nu IMF_norm =
     (let shape = np_div (np_mul (flt a) (np_exp (np_mul (flt b) (np_sub (val z) (flt zm)))))
                    (np_add (Sc (f_sub (Some a) (Some b)))
                       (np_mul (flt b) (np_exp (np_mul (flt a) (np_sub (val z) (flt zm))))));
          norm = f_mul (Some IMF_norm) (Some nu)
      in np_mul (Sc norm) shape)"

text \<open>
  The three segments of \<open>HB06\<close>. The factors \<open>(1.+z1)**(a-b)\<close> and \<open>(1.+z2)**(b-c)\<close>
  are Python scalars. The parameter \<open>norm\<close> of the source is \<open>norm0\<close> here.
\<close>

definition HB06_seg1 :: "real nd \<Rightarrow> real \<Rightarrow> fl nd" where
  "HB06_seg1 z a = np_pow (np_add (flt 1) (val z)) (flt a)"

definition HB06_seg2 :: "real nd \<Rightarrow> real \<Rightarrow> real \<Rightarrow> real \<Rightarrow> error + fl nd" where
  "HB06_seg2 z z1 a b =
     bind_err (py_pow (f_add (Some 1) (Some z1)) (f_sub (Some a) (Some b))) (\<lambda>p1.
       Inr (np_mul (np_pow (np_add (flt 1) (val z)) (flt b)) (Sc p1)))"

definition HB06_seg3 :: "real nd \<Rightarrow> real \<Rightarrow> real \<Rightarrow> real \<Rightarrow> real \<Rightarrow> real \<Rightarrow> error + fl nd" where
  "HB06_seg3 z z1 z2 a b c =
     bind_err (py_pow (f_add (Some 1) (Some z2)) (f_sub (Some b) (Some c))) (\<lambda>p2.
     bind_err (py_pow (f_add (Some 1) (Some z1)) (f_sub (Some a) (Some b))) (\<lambda>p1.
       Inr (np_mul (np_mul (np_pow (np_add (flt 1) (val z)) (flt c)) (Sc p2)) (Sc p1))))"

definition HB06 ::
  "real nd \<Rightarrow> real \<Rightarrow> real \<Rightarrow> real \<Rightarrow> real \<Rightarrow> real \<Rightarrow> real \<Rightarrow> real \<Rightarrow> error + fl nd" where
  "HB06 z z1 z2 a b c norm0 IMF_norm =
     bind_err (HB06_seg2 z z1 a b) (\<lambda>s2.
       let shape = np_where (np_le (val z) (flt z1)) (HB06_seg1 z a) s2 in
     bind_err (HB06_seg3 z z1 z2 a b c) (\<lambda>s3.
       let shape = np_where (np_ge (val z) (flt z2)) s3 shape in
       Inr (np_mul (flt norm0) shape)))"

definition BExp_low :: "real nd \<Rightarrow> real \<Rightarrow> fl nd" where
  "BExp_low z a = np_exp (np_mul (flt a) (val z))"

definition BExp_high :: "real nd \<Rightarrow> real \<Rightarrow> real \<Rightarrow> real \<Rightarrow> fl nd" where
  "BExp_high z a b zm =
     np_mul (np_exp (np_mul (flt b) (val z)))
       (np_exp (Sc (f_mul (f_sub (Some a) (Some b)) (Some zm))))"

definition BExp ::
  "real nd \<Rightarrow> real \<Rightarrow> real \<Rightarrow> real \<Rightarrow> real \<Rightarrow> real \<Rightarrow> real option \<Rightarrow> fl nd" where
  "BExp z a b zm SFR_norm IMF_norm nGRB0 =
     (let shape = np_where (np_le (val z) (flt zm)) (BExp_low z a) (BExp_high z a b zm);
          norm = (case nGRB0 of None \<Rightarrow> f_mul (Some IMF_norm) (Some SFR_norm)
                  | Some n \<Rightarrow> Some n)
      in np_mul (Sc norm) shape)"

definition Li08 :: "real nd \<Rightarrow> real \<Rightarrow> real \<Rightarrow> real \<Rightarrow> real \<Rightarrow> real \<Rightarrow> fl nd" where
  "Li08 z a b c d IMF_norm =
     np_div (np_mul (flt IMF_norm) (np_add (flt a) (np_mul (flt b) (val z))))
       (np_add (flt 1) (np_pow (np_div (val z) (flt c)) (flt d)))"

text \<open>
  \<open>S12\<close> calls \<open>Li08\<close> with its defaults. \<open>scipy.special.gammainc\<close> is an elementwise
  function of the scipy library; it is the parameter \<open>gammainc\<close>. \<open>Zth**2\<close> is a Python
  scalar power and can raise OverflowError.
\<close>

definition S12 ::
  "(fl \<Rightarrow> fl \<Rightarrow> fl) \<Rightarrow> real nd \<Rightarrow> real option \<Rightarrow> real option \<Rightarrow> error + fl nd" where
  "S12 gammainc z Zth n_dens =
     (let shape = Li08 z 0.0157 0.118 3.23 4.66 0.007422;
          shape = (case n_dens of None \<Rightarrow> shape
                   | Some n \<Rightarrow> np_mul shape (np_pow (np_add (flt 1) (val z)) (flt n)))
      in case Zth of
           None \<Rightarrow> Inr shape
         | Some Zt \<Rightarrow>
             bind_err (py_pow (Some Zt) (Some 2)) (\<lambda>Zt2.
               Inr (np_mul shape
                      (broadcast2 gammainc (flt 0.84)
                         (np_mul (Sc Zt2) (np_pow (flt 10) (np_mul (flt 0.3) (val z))))))))"

definition BPL_z_low :: "real nd \<Rightarrow> real \<Rightarrow> fl nd" where
  "BPL_z_low z a = np_pow (np_add (flt 1) (val z)) (flt a)"

definition BPL_z_high :: "real nd \<Rightarrow> real \<Rightarrow> real \<Rightarrow> real \<Rightarrow> error + fl nd" where
  "BPL_z_high z a b zm =
     bind_err (py_pow (f_add (Some 1) (Some zm)) (f_sub (Some a) (Some b))) (\<lambda>p.
       Inr (np_mul (np_pow (np_add (flt 1) (val z)) (flt b)) (Sc p)))"

definition BPL_z ::
  "real nd \<Rightarrow> real \<Rightarrow> real \<Rightarrow> real \<Rightarrow> real \<Rightarrow> real \<Rightarrow> real \<Rightarrow> error + fl nd" where
  "BPL_z z a b zm nGRB0 eta0 av_jet_ang =
     bind_err (BPL_z_high z a b zm) (\<lambda>hi.
       let shape = np_where (np_le (val z) (flt zm)) (BPL_z_low z a) hi in
     bind_err (py_div (Some nGRB0) (f_mul (Some eta0) (Some av_jet_ang))) (\<lambda>norm.
       Inr (np_mul (Sc norm) shape)))"

definition MD14 :: "real nd \<Rightarrow> real \<Rightarrow> real \<Rightarrow> real \<Rightarrow> real \<Rightarrow> real \<Rightarrow> fl nd" where
  "MD14 z a b c d IMF_norm =
     (let shape = np_div (np_pow (np_add (flt 1) (val z)) (flt b))
                    (np_add (flt 1)
                       (np_pow (np_div (np_add (flt 1) (val z)) (flt c)) (flt d)));
          norm = f_mul (Some IMF_norm) (Some a)
      in np_mul (Sc norm) shape)"

definition Rob15 ::
  "real nd \<Rightarrow> real \<Rightarrow> real \<Rightarrow> real \<Rightarrow> real \<Rightarrow> real \<Rightarrow> real \<Rightarrow> real \<Rightarrow> real \<Rightarrow> real \<Rightarrow> fl nd" where
  "Rob15 z a b c d a_err b_err c_err d_err IMF_norm =
     (let shape = np_div (np_pow (np_add (flt 1) (val z)) (flt b))
                    (np_add (flt 1)
                       (np_pow (np_div (np_add (flt 1) (val z)) (flt c)) (flt d)));
          norm = f_mul (Some IMF_norm) (Some a)
      in np_mul (Sc norm) shape)"

text \<open>
  \<open>qD06\<close>: \<open>SFR\<close> is a Python int, \<open>mod\<close> a string (\<open>mode\<close> here). Past the two checks \<open>SFR - 1\<close> is
  0, 1 or 2, an index inside the three-element lists. The literals \<open>2.5e-6\<close>, \<open>4e-6\<close>, ...
  are written out in decimal.
\<close>

definition qD06 :: "real nd \<Rightarrow> int \<Rightarrow> string \<Rightarrow> real \<Rightarrow> error + fl nd" where
  "qD06 z SFR mode IMF_norm =
     (let a_s = [0.320, 0.196, 0.175];
          b_s = [3.30, 4.0, 3.67];
          c_s = [3.52, 4.0, 3.48];
          d_s = [23.6, 14.6, 12.6]
      in bind_err
           (if mode = ''LN'' then Inr [0.0000025, 0.000002, 0.00000063]
            else if mode = ''A'' then Inr [0.000004, 0.0000032, 0.0000012]
            else Inl (ValueError ''mod must be A or LN''))
           (\<lambda>k_s.
              if SFR \<notin> set [1, 2, 3]
              then Inl (ValueError ''SFR must be an int equal to 1, 2, or 3.'')
              else
                let i = nat (SFR - 1);
                    shape = np_div (np_mul (flt (a_s ! i)) (np_exp (np_mul (flt (b_s ! i)) (val z))))
                              (np_add (flt (d_s ! i)) (np_exp (np_mul (flt (c_s ! i)) (val z))));
                    norm = f_mul (Some (k_s ! i)) (Some IMF_norm)
                in Inr (np_mul (Sc norm) shape)))"

definition D06 :: "real nd \<Rightarrow> real \<Rightarrow> real \<Rightarrow> real \<Rightarrow> real \<Rightarrow> real \<Rightarrow> fl nd" where
  "D06 z a b c d IMF_norm =
     (let shape = np_div (np_mul (flt a) (np_exp (np_mul (flt b) (val z))))
                    (np_add (flt d) (np_exp (np_mul (flt c) (val z))));
          norm = IMF_norm
      in np_mul (flt norm) shape)"

section \<open>Powers of two and the float range\<close>

lemma p2_pos [simp]: "0 < p2 k"
  by (simp add: p2_def)

lemma p2_nonneg [simp]: "0 \<le> p2 k"
  by (simp add: p2_def)

lemma p2_zero: "p2 0 = 1"
  by (simp add: p2_def)

lemma p2_le [simp]: "p2 j \<le> p2 k \<longleftrightarrow> j \<le> k"
proof
  assume "p2 j \<le> p2 k"
  show "j \<le> k"
  proof (rule ccontr)
    assume "\<not> j \<le> k"
    then have "k < j" by simp
    then have "p2 k < p2 j"
      unfolding p2_def by (intro power_int_strict_increasing) simp_all
    with \<open>p2 j \<le> p2 k\<close> show False by simp
  qed
next
  assume "j \<le> k"
  then show "p2 j \<le> p2 k"
    unfolding p2_def by (intro power_int_increasing) simp_all
qed

lemma p2_less [simp]: "p2 j < p2 k \<longleftrightarrow> j < k"
  using p2_le [of k j] by (simp add: not_le [symmetric] del: p2_le)

lemma p2_mult: "p2 j * p2 k = p2 (j + k)"
  by (simp add: p2_def power_int_add)

lemma p2_div: "p2 j / p2 k = p2 (j - k)"
  by (simp add: p2_def power_int_diff)

lemma p2_power: "p2 j ^ n = p2 (j * int n)"
  by (simp add: p2_def power_int_power')

lemma p2_inverse: "1 / p2 k = p2 (- k)"
  by (simp add: p2_def power_int_minus_divide)

lemma p2_nat: "p2 (int n) = 2 ^ n"
  by (simp add: p2_def)

lemma neg_p2_less [simp]: "- p2 j < p2 k"
  by (rule less_trans [of _ 0]) simp_all

lemma p2_not_le_zero [simp]: "\<not> p2 k \<le> 0"
  by (simp add: not_le)

lemma p2_max: "(2 :: real) ^ 1024 = p2 1024"
  by (simp only: p2_def power_int_numeral)

lemma p2_min: "1 / (2 :: real) ^ 1075 = p2 (- 1075)"
  by (simp only: p2_def power_int_minus_divide power_int_numeral)

lemma rng_p2:
  "rng r = (if p2 1024 \<le> \<bar>r\<bar> then None else if \<bar>r\<bar> < p2 (- 1075) then Some 0 else Some r)"
  by (simp only: rng_def p2_max p2_min)

lemma in_range_p2: "in_range r \<longleftrightarrow> (r = 0 \<or> p2 (- 1075) \<le> \<bar>r\<bar>) \<and> \<bar>r\<bar> < p2 1024"
  by (simp only: in_range_def p2_max p2_min)

lemma rng_in_range: "in_range r \<Longrightarrow> rng r = Some r"
  by (auto simp add: in_range_p2 rng_p2)

lemma rng_zero [simp]: "rng 0 = Some 0"
  by (simp add: rng_p2)

lemma rng_one [simp]: "rng 1 = Some 1"
  using p2_less [of 0 1024] p2_le [of "- 1075" 0] by (simp add: rng_p2 p2_zero del: p2_less p2_le)

lemma in_range_between: "p2 j \<le> r \<Longrightarrow> r \<le> p2 k \<Longrightarrow> - 1075 \<le> j \<Longrightarrow> k < 1024 \<Longrightarrow> in_range r"
proof -
  assume a: "p2 j \<le> r" "r \<le> p2 k" "- 1075 \<le> j" "k < 1024"
  have "0 < r"
    using a(1) by (rule less_le_trans [OF p2_pos])
  moreover have "p2 (- 1075) \<le> r"
    using a(1,3) by (intro order_trans [OF _ a(1)]) simp
  moreover have "r < p2 1024"
    using a(2,4) by (intro le_less_trans [OF a(2)]) simp
  ultimately show ?thesis
    by (simp add: in_range_p2)
qed

lemma exp_upper_p2:
  assumes "x \<le> real n"
  shows "exp x \<le> p2 (2 * int n)"
proof -
  have "exp x \<le> exp (real n)"
    using assms by simp
  also have "exp (real n) = exp 1 ^ n"
    using exp_of_nat_mult [of n "1 :: real"] by simp
  also have "exp 1 ^ n \<le> (4 :: real) ^ n"
    using exp_le by (intro power_mono) simp_all
  also have "(4 :: real) ^ n = (2 ^ 2) ^ n"
    by simp
  also have "\<dots> = 2 ^ (2 * n)"
    by (rule power_mult [symmetric])
  also have "\<dots> = p2 (2 * int n)"
    using p2_nat [of "2 * n"] by simp
  finally show ?thesis .
qed

lemma exp_lower_p2:
  assumes "- real n \<le> x"
  shows "p2 (- (2 * int n)) \<le> exp x"
proof -
  have "exp (- x) \<le> p2 (2 * int n)"
    using assms by (intro exp_upper_p2) simp
  then have "1 / p2 (2 * int n) \<le> 1 / exp (- x)"
    by (intro divide_left_mono) simp_all
  then show ?thesis
    by (simp add: exp_minus inverse_eq_divide p2_inverse)
qed

lemma in_range_exp:
  assumes "- 500 \<le> x" and "x \<le> 500"
  shows "in_range (exp x)"
proof (rule in_range_between)
  show "p2 (- (2 * int 500)) \<le> exp x"
    using assms by (intro exp_lower_p2) simp
  show "exp x \<le> p2 (2 * int 500)"
    using assms by (intro exp_upper_p2) simp
qed simp_all

lemma rng_exp: "- 500 \<le> x \<Longrightarrow> x \<le> 500 \<Longrightarrow> rng (exp x) = Some (exp x)"
  by (rule rng_in_range) (rule in_range_exp)



lemma f_pow_pos:
  assumes "0 < x" and "in_range (x powr y)"
  shows "f_pow (Some x) (Some y) = Some (x powr y)"
  using assms by (auto simp add: f_pow_def real_pow_def pow_real_def rng_in_range)

lemma powr_bounds:
  fixes x y :: real
  assumes "0 < l" and "l \<le> 1" and "1 \<le> u" and "l \<le> x" and "x \<le> u"
    and "0 \<le> y" and "y \<le> real n"
  shows "l ^ n \<le> x powr y" and "x powr y \<le> u ^ n"
proof -
  have "l ^ n = l powr real n"
    using assms by (simp add: powr_realpow)
  also have "\<dots> \<le> l powr y"
    using assms by (intro powr_mono') simp_all
  also have "\<dots> \<le> x powr y"
    using assms by (intro powr_mono2) simp_all
  finally show "l ^ n \<le> x powr y" .
  have "x powr y \<le> u powr y"
    using assms by (intro powr_mono2) simp_all
  also have "\<dots> \<le> u powr real n"
    using assms by (intro powr_mono) simp_all
  also have "\<dots> = u ^ n"
    using assms by (simp add: powr_realpow)
  finally show "x powr y \<le> u ^ n" .
qed

text \<open>A real power of a base between \<open>2^j\<close> and \<open>2^k\<close>, with an exponent of size at most \<open>n\<close>.\<close>

lemma powr_p2_bounds:
  fixes x y :: real
  assumes "p2 j \<le> x" and "x \<le> p2 k" and "j \<le> 0" and "0 \<le> k" and "\<bar>y\<bar> \<le> real n"
  shows "p2 (- ((k - j) * int n)) \<le> x powr y" and "x powr y \<le> p2 ((k - j) * int n)"
proof -
  have x: "0 < x"
    using assms(1) by (rule less_le_trans [OF p2_pos])
  have l1: "p2 j \<le> 1" and u1: "1 \<le> p2 k"
    using assms(3,4) p2_le [of j 0] p2_le [of 0 k] by (simp_all add: p2_zero)
  have jn: "j * int n \<le> 0" and kn: "0 \<le> k * int n"
    using assms(3,4) by (simp_all add: mult_nonpos_nonneg)
  have lo_le: "- ((k - j) * int n) \<le> j * int n" and lo_le': "- ((k - j) * int n) \<le> - (k * int n)"
    and hi_le: "k * int n \<le> (k - j) * int n" and hi_le': "- (j * int n) \<le> (k - j) * int n"
    using jn kn by (simp_all add: algebra_simps)
  show "p2 (- ((k - j) * int n)) \<le> x powr y"
  proof (cases "0 \<le> y")
    case True
    then have "p2 j ^ n \<le> x powr y"
      using powr_bounds(1) [of "p2 j" "p2 k" x y n] assms l1 u1 by simp
    moreover have "p2 (- ((k - j) * int n)) \<le> p2 j ^ n"
      using lo_le by (simp add: p2_power)
    ultimately show ?thesis by (rule order_trans [rotated])
  next
    case False
    then have up: "x powr (- y) \<le> p2 k ^ n"
      using powr_bounds(2) [of "p2 j" "p2 k" x "- y" n] assms l1 u1 by simp
    have "1 / p2 k ^ n \<le> 1 / x powr (- y)"
      using up x by (intro frac_le) simp_all
    then have "p2 (- (k * int n)) \<le> x powr y"
      by (simp add: p2_power p2_inverse powr_minus_divide)
    moreover have "p2 (- ((k - j) * int n)) \<le> p2 (- (k * int n))"
      using lo_le' by simp
    ultimately show ?thesis by (rule order_trans [rotated])
  qed
  show "x powr y \<le> p2 ((k - j) * int n)"
  proof (cases "0 \<le> y")
    case True
    then have "x powr y \<le> p2 k ^ n"
      using powr_bounds(2) [of "p2 j" "p2 k" x y n] assms l1 u1 by simp
    moreover have "p2 k ^ n \<le> p2 ((k - j) * int n)"
      using hi_le by (simp add: p2_power)
    ultimately show ?thesis by (rule order_trans)
  next
    case False
    then have lo: "p2 j ^ n \<le> x powr (- y)"
      using powr_bounds(1) [of "p2 j" "p2 k" x "- y" n] assms l1 u1 by simp
    have "1 / x powr (- y) \<le> 1 / p2 j ^ n"
      using lo x by (intro frac_le) simp_all
    then have "x powr y \<le> p2 (- (j * int n))"
      by (simp add: p2_power p2_inverse powr_minus_divide)
    moreover have "p2 (- (j * int n)) \<le> p2 ((k - j) * int n)"
      using hi_le' by simp
    ultimately show ?thesis by (rule order_trans)
  qed
qed

lemma in_range_powr:
  assumes "p2 j \<le> x" and "x \<le> p2 k" and "j \<le> 0" and "0 \<le> k" and "\<bar>y\<bar> \<le> real n"
    and "(k - j) * int n < 1024"
  shows "in_range (x powr y)"
proof (rule in_range_between)
  show "p2 (- ((k - j) * int n)) \<le> x powr y"
    by (rule powr_p2_bounds(1) [OF assms(1-5)])
  show "x powr y \<le> p2 ((k - j) * int n)"
    by (rule powr_p2_bounds(2) [OF assms(1-5)])
  show "- 1075 \<le> - ((k - j) * int n)"
    using assms(6) by simp
  show "(k - j) * int n < 1024"
    by (rule assms(6))
qed


section \<open>Every function is elementwise\<close>

lemma map2_map_same: "map2 f (map g xs) (map h xs) = map (\<lambda>x. f (g x) (h x)) xs"
  by (induction xs) simp_all

lemma broadcast2_map_map:
  "broadcast2 f (map_nd g z) (map_nd h z) = map_nd (\<lambda>x. f (g x) (h x)) z"
  by (cases z) (simp_all add: map2_map_same)

lemma broadcast2_Sc_map:
  "broadcast2 f (Sc c) (map_nd g z) = map_nd (\<lambda>x. f c (g x)) z"
  by (cases z) simp_all

lemma broadcast2_map_Sc:
  "broadcast2 f (map_nd g z) (Sc c) = map_nd (\<lambda>x. f (g x) c) z"
  by (cases z) simp_all

lemma shape_of_map_nd: "shape_of (map_nd g z) = shape_of z"
  by (cases z) simp_all

lemma shape_of_scalar: "shape_of r = Some [] \<longleftrightarrow> (\<exists>y. r = Sc y)"
  by (cases r) simp_all

lemma shape_of_array: "shape_of r = Some [n] \<longleftrightarrow> (\<exists>ys. r = Arr ys \<and> length ys = n)"
  by (cases r) auto


lemma nd_all_mono: "nd_all Q z \<Longrightarrow> (\<And>x. Q x \<Longrightarrow> P x) \<Longrightarrow> nd_all P z"
  by (cases z) (auto simp add: list_all_iff)

lemmas np_defs = np_add_def np_sub_def np_mul_def np_div_def np_pow_def np_neg_def np_exp_def
  np_le_def np_ge_def np_where_def flt_def val_def

lemmas lift_simps = broadcast2_map_map broadcast2_Sc_map broadcast2_map_Sc nd.map_comp o_def

lemma Schechter_log_elem:
  "Schechter_log logL logLbreak slope =
     map_nd (\<lambda>L. f_mul (f_pow (f_pow (Some 10) (f_sub (Some L) (Some logLbreak)))
                           (f_sub (Some 1) (Some slope)))
                  (f_exp (f_neg (f_pow (Some 10) (f_sub (Some L) (Some logLbreak)))))) logL"
  by (simp add: Schechter_log_def np_defs lift_simps Let_def)

lemma BPL_lum_elem: "\<exists>k. BPL_lum logL logLbreak slopeL slopeH = map_nd k logL"
  by (auto simp add: BPL_lum_def BPL_lum_low_def BPL_lum_high_def np_defs lift_simps Let_def)

lemma SH03_elem:
  "SH03 z a b zm nu IMF_norm =
     map_nd (\<lambda>x. f_mul (f_mul (Some IMF_norm) (Some nu))
        (f_div (f_mul (Some a) (f_exp (f_mul (Some b) (f_sub (Some x) (Some zm)))))
           (f_add (f_sub (Some a) (Some b))
              (f_mul (Some b) (f_exp (f_mul (Some a) (f_sub (Some x) (Some zm)))))))) z"
  by (simp add: SH03_def np_defs lift_simps Let_def)

lemma BExp_elem:
  "BExp z a b zm SFR_norm IMF_norm nGRB0 =
     map_nd (\<lambda>x. f_mul (case nGRB0 of None \<Rightarrow> f_mul (Some IMF_norm) (Some SFR_norm)
                          | Some n \<Rightarrow> Some n)
        (f_where (f_le (Some x) (Some zm))
           (f_exp (f_mul (Some a) (Some x)),
            f_mul (f_exp (f_mul (Some b) (Some x)))
              (f_exp (f_mul (f_sub (Some a) (Some b)) (Some zm)))))) z"
  by (simp add: BExp_def BExp_low_def BExp_high_def np_defs lift_simps Let_def)

lemma Li08_elem:
  "Li08 z a b c d IMF_norm =
     map_nd (\<lambda>x. f_div (f_mul (Some IMF_norm) (f_add (Some a) (f_mul (Some b) (Some x))))
        (f_add (Some 1) (f_pow (f_div (Some x) (Some c)) (Some d)))) z"
  by (simp add: Li08_def np_defs lift_simps Let_def)

lemma MD14_elem:
  "MD14 z a b c d IMF_norm =
     map_nd (\<lambda>x. f_mul (f_mul (Some IMF_norm) (Some a))
        (f_div (f_pow (f_add (Some 1) (Some x)) (Some b))
           (f_add (Some 1)
              (f_pow (f_div (f_add (Some 1) (Some x)) (Some c)) (Some d))))) z"
  by (simp add: MD14_def np_defs lift_simps Let_def)

lemma Rob15_elem:
  "Rob15 z a b c d a_err b_err c_err d_err IMF_norm =
     map_nd (\<lambda>x. f_mul (f_mul (Some IMF_norm) (Some a))
        (f_div (f_pow (f_add (Some 1) (Some x)) (Some b))
           (f_add (Some 1)
              (f_pow (f_div (f_add (Some 1) (Some x)) (Some c)) (Some d))))) z"
  by (simp add: Rob15_def np_defs lift_simps Let_def)

lemma D06_elem: "\<exists>k. D06 z a b c d IMF_norm = map_nd k z"
  by (auto simp add: D06_def np_defs lift_simps Let_def)

lemma S12_elem:
  "S12 gammainc z Zth n_dens = Inr r \<Longrightarrow> \<exists>k. r = map_nd k z"
  by (cases Zth; cases n_dens)
     (auto simp add: S12_def Li08_elem bind_err_def np_defs lift_simps Let_def
        split: sum.splits)

lemma HB06_elem:
  "HB06 z z1 z2 a b c norm0 IMF_norm = Inr r \<Longrightarrow> \<exists>k. r = map_nd k z"
  by (auto simp add: HB06_def HB06_seg1_def HB06_seg2_def HB06_seg3_def bind_err_def
        np_defs lift_simps Let_def split: sum.splits)

lemma BPL_z_elem:
  "BPL_z z a b zm nGRB0 eta0 av_jet_ang = Inr r \<Longrightarrow> \<exists>k. r = map_nd k z"
  by (auto simp add: BPL_z_def BPL_z_low_def BPL_z_high_def bind_err_def
        np_defs lift_simps Let_def split: sum.splits)

lemma qD06_elem:
  "qD06 z SFR mode IMF_norm = Inr r \<Longrightarrow> \<exists>k. r = map_nd k z"
  by (auto simp add: qD06_def bind_err_def
        np_defs lift_simps Let_def split: sum.splits if_splits)


section \<open>Interval bounds through the float operations\<close>

lemma bounded_iff: "bounded lo hi v \<longleftrightarrow> (\<exists>r. v = Some r \<and> lo \<le> r \<and> r \<le> hi)"
  by (cases v) simp_all


lemma p2_le_imp_pos: "p2 j \<le> a \<Longrightarrow> 0 < a"
  by (rule less_le_trans [OF p2_pos])






lemma bp0_rng:
  assumes "0 \<le> r" and "r \<le> p2 k" and "k < 1024"
  shows "bounded 0 (p2 k) (rng r)"
proof -
  have "r < p2 1024"
    using assms by (intro le_less_trans [OF assms(2)]) simp
  then have "\<bar>r\<bar> < p2 1024"
    using assms by simp
  then show ?thesis
    using assms by (auto simp add: rng_p2)
qed

lemma rng_small: "1 / 10 ^ 9 \<le> \<bar>r\<bar> \<Longrightarrow> \<bar>r\<bar> \<le> 10 ^ 9 \<Longrightarrow> rng r = Some r"
proof -
  assume a: "1 / 10 ^ 9 \<le> \<bar>r\<bar>" "\<bar>r\<bar> \<le> 10 ^ 9"
  have "p2 (- 1075) \<le> p2 (- 30)"
    by simp
  also have "p2 (- 30) \<le> 1 / 10 ^ 9"
    by (simp add: p2_def power_int_minus)
  finally have "p2 (- 1075) \<le> \<bar>r\<bar>"
    using a by simp
  moreover have "(10 :: real) ^ 9 \<le> p2 30"
    by (simp add: p2_def)
  then have "\<bar>r\<bar> \<le> p2 30"
    using a by simp
  then have "\<bar>r\<bar> < p2 1024"
    by (rule le_less_trans) simp
  ultimately show ?thesis
    by (simp add: rng_p2)
qed

lemma in_range_small: "1 / 10 ^ 9 \<le> \<bar>r\<bar> \<Longrightarrow> \<bar>r\<bar> \<le> 10 ^ 9 \<Longrightarrow> in_range r"
  using rng_small [of r] by (auto simp add: in_range_def rng_def split: if_splits)

lemma in_range_zero [simp]: "in_range 0"
  by (simp add: in_range_p2)

lemma f_none_right [simp]:
  "f_add x None = None" "f_sub x None = None" "f_mul x None = None" "f_div x None = None"
  by (cases x; simp)+

lemma pow_real_two: "pow_real x 2 = Some (x ^ 2)"
  by (cases "0 < x") (auto simp add: pow_real_def not_less less_eq_real_def)





lemma bp_mul0:
  assumes "bounded (p2 j1) (p2 k1) x" and "bounded 0 (p2 k2) y" and "k1 + k2 < 1024"
  shows "bounded 0 (p2 (k1 + k2)) (f_mul x y)"
proof -
  obtain a b where ab: "x = Some a" "p2 j1 \<le> a" "a \<le> p2 k1" "y = Some b" "0 \<le> b" "b \<le> p2 k2"
    using assms by (auto simp add: bounded_iff)
  have a0: "0 < a"
    using ab(2) by (rule p2_le_imp_pos)
  have "0 \<le> a * b"
    using a0 ab by simp
  moreover have "a * b \<le> p2 k1 * p2 k2"
    using ab a0 by (intro mult_mono) simp_all
  ultimately have "bounded 0 (p2 (k1 + k2)) (rng (a * b))"
    using assms by (intro bp0_rng) (simp_all add: p2_mult)
  then show ?thesis
    using ab by simp
qed


lemma bp_div0:
  assumes "bounded 0 (p2 k1) x" and "bounded (p2 j2) (p2 k2) y" and "k1 - j2 < 1024"
  shows "bounded 0 (p2 (k1 - j2)) (f_div x y)"
proof -
  obtain a b where ab: "x = Some a" "0 \<le> a" "a \<le> p2 k1" "y = Some b" "p2 j2 \<le> b" "b \<le> p2 k2"
    using assms by (auto simp add: bounded_iff)
  have b0: "0 < b"
    using ab(5) by (rule p2_le_imp_pos)
  have "0 \<le> a / b"
    using ab b0 by simp
  moreover have "a / b \<le> p2 k1 / p2 j2"
    using ab by (intro frac_le) simp_all
  ultimately have "bounded 0 (p2 (k1 - j2)) (rng (a / b))"
    using assms by (intro bp0_rng) (simp_all add: p2_div)
  then show ?thesis
    using ab b0 by simp
qed





lemma py_pow_pos:
  assumes "0 < x" and "in_range (x powr y)"
  shows "py_pow (Some x) (Some y) = Inr (Some (x powr y))"
proof -
  have "\<not> 2 ^ 1024 \<le> \<bar>x powr y\<bar>"
    using assms(2) by (simp add: in_range_def)
  then show ?thesis
    using assms by (auto simp add: py_pow_def pow_real_def rng_in_range)
qed


section \<open>Positivity of the default rates, element by element\<close>








lemma small_consts:
  "p2 (- 8) \<le> 0.007422" "0.007422 \<le> p2 (- 7)"
  "p2 (- 7) \<le> 0.015" "0.015 \<le> p2 (- 6)" "p2 (- 7) \<le> 0.01376" "0.01376 \<le> p2 (- 6)"
  "p2 1 \<le> 2.9" "2.9 \<le> p2 2" "p2 1 \<le> 2.59" "2.59 \<le> p2 2"
  by (simp_all add: p2_def power_int_minus)




section \<open>The model on concrete inputs\<close>

text \<open>
  Where Python's scalar arithmetic raises. \<open>HB06(0, z1=1e200, a=2, b=0)\<close>: the scalar power
  \<open>(1.+z1)**(a-b)\<close> overflows and raises OverflowError; so does \<open>Zth**2\<close> in \<open>S12\<close> with
  \<open>Zth = 1e200\<close>. \<open>BPL_z(0, eta0=1e-200, av_jet_ang=1e-200)\<close>: the product
  \<open>eta0*av_jet_ang\<close> underflows to \<open>0.0\<close> and the division raises ZeroDivisionError.
  Arrays of lengths 2 and 3 do not broadcast.
\<close>

lemma ten_power_bounds: "p2 (3 * int n) \<le> 10 ^ n" "10 ^ n \<le> p2 (4 * int n)"
proof -
  have "p2 (3 * int n) = p2 3 ^ n"
    by (simp add: p2_power)
  also have "\<dots> \<le> 10 ^ n"
    by (rule power_mono) (simp_all add: p2_def)
  finally show "p2 (3 * int n) \<le> 10 ^ n" .
  have "(10 :: real) ^ n \<le> p2 4 ^ n"
    by (rule power_mono) (simp_all add: p2_def)
  also have "\<dots> = p2 (4 * int n)"
    by (simp add: p2_power)
  finally show "10 ^ n \<le> p2 (4 * int n)" .
qed

lemma py_pow_two_overflow:
  assumes "p2 512 \<le> x"
  shows "py_pow (Some x) (Some 2) = Inl OverflowError"
proof -
  have "p2 0 < p2 512"
    by (simp del: p2_zero)
  then have "1 < x"
    using assms by (simp add: p2_zero)
  have "p2 1024 = p2 512 ^ 2"
    by (simp add: p2_power)
  also have "\<dots> \<le> x ^ 2"
    using assms by (intro power_mono) simp_all
  finally have "2 ^ 1024 \<le> \<bar>x ^ 2\<bar>"
    by (simp only: p2_max abs_power2)
  then show ?thesis
    using \<open>1 < x\<close> by (simp add: py_pow_def pow_real_two)
qed

lemma HB06_overflow_example:
  "HB06 (Sc 0) (10 ^ 200) 4.48 2 0 (- 7.8) 0.0197 0.007422 = Inl OverflowError"
proof -
  define t :: real where "t = 10 ^ 200"
  have "p2 (3 * int 200) \<le> t" and "t \<le> p2 (4 * int 200)"
    unfolding t_def by (rule ten_power_bounds)+
  then have lo: "p2 600 \<le> t" and hi: "t \<le> p2 800"
    by simp_all
  have "1 + t \<le> p2 800 + p2 800"
    using hi p2_le [of 0 800] by (simp only: p2_zero) simp
  then have hi1: "1 + t \<le> p2 801"
    using p2_mult [of 1 800] by (simp add: p2_def)
  have lo1: "p2 600 \<le> 1 + t"
    using lo by simp
  have a: "f_add (Some 1) (Some t) = Some (1 + t)"
    unfolding f_add.simps
    by (rule rng_in_range, rule in_range_between [OF lo1 hi1]) simp_all
  have b: "f_sub (Some 2) (Some 0) = Some 2"
    by (simp add: rng_small)
  have "p2 512 \<le> 1 + t"
    by (rule order_trans [OF _ lo1]) simp
  then have "py_pow (Some (1 + t)) (Some 2) = Inl OverflowError"
    by (rule py_pow_two_overflow)
  then have "HB06_seg2 (Sc 0) t 2 0 = Inl OverflowError"
    unfolding HB06_seg2_def a b by (simp add: bind_err_def)
  then have "HB06 (Sc 0) t 4.48 2 0 (- 7.8) 0.0197 0.007422 = Inl OverflowError"
    unfolding HB06_def by (simp add: bind_err_def)
  then show ?thesis
    unfolding t_def .
qed

lemma S12_overflow_example:
  "S12 gammainc (Sc 0) (Some (10 ^ 200)) None = Inl OverflowError"
proof -
  define t :: real where "t = 10 ^ 200"
  have "p2 (3 * int 200) \<le> t"
    unfolding t_def by (rule ten_power_bounds)
  then have "p2 512 \<le> t"
    by (intro order_trans [of "p2 512" "p2 (3 * int 200)" t]) simp_all
  then have "py_pow (Some t) (Some 2) = Inl OverflowError"
    by (rule py_pow_two_overflow)
  then have "S12 gammainc (Sc 0) (Some t) None = Inl OverflowError"
    by (simp add: S12_def bind_err_def Let_def)
  then show ?thesis
    unfolding t_def .
qed

lemma BPL_z_zero_division_example:
  "BPL_z (Sc 0) 2.07 (- 1.36) 3.11 0.0000000013 (1 / 10 ^ 200) (1 / 10 ^ 200)
     = Inl ZeroDivisionError"
proof -
  define t :: real where "t = 10 ^ 200"
  have "p2 (3 * int 200) \<le> t"
    unfolding t_def by (rule ten_power_bounds)
  then have lo: "p2 600 \<le> t"
    by simp
  have t0: "0 < t"
    using lo by (rule p2_le_imp_pos)
  have "p2 1200 = p2 600 * p2 600"
    by (simp add: p2_mult)
  also have "\<dots> \<le> t * t"
    using lo t0 by (intro mult_mono) simp_all
  finally have "1 / (t * t) \<le> 1 / p2 1200"
    using t0 by (intro divide_left_mono) simp_all
  also have "\<dots> = p2 (- 1200)"
    by (rule p2_inverse)
  also have "\<dots> < p2 (- 1075)"
    by simp
  finally have "\<bar>1 / t * (1 / t)\<bar> < p2 (- 1075)"
    using t0 by simp
  then have u: "f_mul (Some (1 / t)) (Some (1 / t)) = Some 0"
    unfolding f_mul.simps rng_p2 using neg_p2_less [of 1024 "- 1075"]
    by (auto simp add: not_le dest: less_trans [OF _ p2_less [THEN iffD2, of "- 1075" 1024]])
  have "in_range (4.11 powr 3.43)"
    by (rule in_range_powr [of 0 _ 3 _ 4]) (simp_all add: p2_def)
  then have p: "py_pow (Some 4.11) (Some 3.43) = Inr (Some (4.11 powr 3.43))"
    by (intro py_pow_pos) simp_all
  have s: "f_add (Some 1) (Some 3.11) = Some 4.11" "f_sub (Some 2.07) (Some (- 1.36)) = Some 3.43"
    by (simp_all add: rng_small)
  have "BPL_z (Sc 0) 2.07 (- 1.36) 3.11 0.0000000013 (1 / t) (1 / t) = Inl ZeroDivisionError"
    unfolding BPL_z_def BPL_z_high_def u s p by (simp add: bind_err_def py_div_def)
  then show ?thesis
    unfolding t_def .
qed

lemma broadcast_mismatch:
  "Schechter_log (Arr [1, 2]) 0 0 \<noteq> BroadcastError
   \<and> np_add (Arr [Some 1, Some 2]) (Arr [Some 1, Some 2, Some 3]) = BroadcastError"
  by (simp add: Schechter_log_elem np_defs)


section \<open>The claims\<close>

lemma map_nd_cong_all: "nd_all (\<lambda>x. f x = g x) z \<Longrightarrow> map_nd f z = map_nd g z"
  by (cases z) (simp_all add: list_all_iff)

lemma Schechter_at_break:
  "Schechter_log (Sc logLbreak) logLbreak slope = Sc (Some (exp (- 1)))"
  by (simp add: Schechter_log_elem f_pow_def rng_exp)

lemma Schechter_in_range_elem:
  assumes "list_all in_range
     [L - logLbreak, 10 powr (L - logLbreak), 1 - slope,
      (10 powr (L - logLbreak)) powr (1 - slope), exp (- (10 powr (L - logLbreak))),
      (10 powr (L - logLbreak)) powr (1 - slope) * exp (- (10 powr (L - logLbreak)))]"
  shows "f_mul (f_pow (f_pow (Some 10) (f_sub (Some L) (Some logLbreak)))
                           (f_sub (Some 1) (Some slope)))
                  (f_exp (f_neg (f_pow (Some 10) (f_sub (Some L) (Some logLbreak)))))
         = Some ((10 powr (L - logLbreak)) powr (1 - slope) * exp (- (10 powr (L - logLbreak))))"
  using assms by (simp add: rng_in_range f_pow_pos)

text \<open>
  C1, as the spec states it, is false: at the break \<open>x = 1\<close>, so the power is 1 but the
  factor \<open>exp(-x)\<close> is \<open>exp(-1)\<close>, and \<open>Schechter_log\<close> returns \<open>exp(-1)\<close>, not 1.
\<close>

theorem Schechter_log_break_not_one: "Schechter_log (Sc 0) 0 0 \<noteq> Sc (Some 1)"
  by (simp add: Schechter_at_break)

text \<open>
  C1 (amended): for every slope and every logLbreak, \<open>Schechter_log\<close> evaluated at the
  break (logL = logLbreak) returns \<open>exp(-1)\<close>; in general it computes, element by element,
  \<open>x^(1-slope) * exp(-x)\<close> with \<open>x = 10^(logL - logLbreak)\<close> in float arithmetic, which is
  that real number wherever no intermediate result overflows or underflows.
\<close>

theorem Schechter_log_value:
  "Schechter_log (Sc logLbreak) logLbreak slope = Sc (Some (exp (- 1)))
   \<and> Schechter_log (Arr (replicate n logLbreak)) logLbreak slope
       = Arr (replicate n (Some (exp (- 1))))
   \<and> Schechter_log logL logLbreak slope =
       map_nd (\<lambda>L. let x = f_pow (Some 10) (f_sub (Some L) (Some logLbreak))
                    in f_mul (f_pow x (f_sub (Some 1) (Some slope))) (f_exp (f_neg x))) logL
   \<and> (nd_all (\<lambda>L. list_all in_range
          [L - logLbreak, 10 powr (L - logLbreak), 1 - slope,
           (10 powr (L - logLbreak)) powr (1 - slope), exp (- (10 powr (L - logLbreak))),
           (10 powr (L - logLbreak)) powr (1 - slope) * exp (- (10 powr (L - logLbreak)))]) logL
       \<longrightarrow> Schechter_log logL logLbreak slope =
           map_nd (\<lambda>L. Some ((10 powr (L - logLbreak)) powr (1 - slope)
                              * exp (- (10 powr (L - logLbreak))))) logL)"
proof (intro conjI impI)
  show "Schechter_log (Sc logLbreak) logLbreak slope = Sc (Some (exp (- 1)))"
    by (rule Schechter_at_break)
  show "Schechter_log (Arr (replicate n logLbreak)) logLbreak slope
        = Arr (replicate n (Some (exp (- 1))))"
    by (simp add: Schechter_log_elem f_pow_def rng_exp)
  show "Schechter_log logL logLbreak slope =
       map_nd (\<lambda>L. let x = f_pow (Some 10) (f_sub (Some L) (Some logLbreak))
                    in f_mul (f_pow x (f_sub (Some 1) (Some slope))) (f_exp (f_neg x))) logL"
    by (simp only: Schechter_log_elem Let_def)
next
  assume r: "nd_all (\<lambda>L. list_all in_range
          [L - logLbreak, 10 powr (L - logLbreak), 1 - slope,
           (10 powr (L - logLbreak)) powr (1 - slope), exp (- (10 powr (L - logLbreak))),
           (10 powr (L - logLbreak)) powr (1 - slope) * exp (- (10 powr (L - logLbreak)))]) logL"
  show "Schechter_log logL logLbreak slope =
           map_nd (\<lambda>L. Some ((10 powr (L - logLbreak)) powr (1 - slope)
                              * exp (- (10 powr (L - logLbreak))))) logL"
    unfolding Schechter_log_elem
    by (rule map_nd_cong_all, rule nd_all_mono [OF r], rule Schechter_in_range_elem)
qed

theorem Schechter_log_value_witness:
  "Schechter_log (Sc 52) 52 (3 / 2) = Sc (Some (exp (- 1)))
   \<and> Schechter_log (Arr [53]) 52 1 = Arr [Some (exp (- 10))]"
proof -
  have r: "nd_all (\<lambda>L. list_all in_range
          [L - 52, 10 powr (L - 52), 1 - 1,
           (10 powr (L - 52)) powr (1 - 1), exp (- (10 powr (L - 52))),
           (10 powr (L - 52)) powr (1 - 1) * exp (- (10 powr (L - 52)))]) (Arr [53])"
    by (simp add: in_range_small in_range_exp)
  show ?thesis
    using Schechter_log_value [of 52 "3 / 2" 0 "Arr [53]", THEN conjunct1]
      Schechter_log_value [of 52 1 0 "Arr [53]", THEN conjunct2, THEN conjunct2,
        THEN conjunct2, rule_format, OF r]
    by simp
qed

lemma py_pow_not_ValueError: "py_pow x y \<noteq> Inl (ValueError m)"
  by (auto simp add: py_pow_def split: option.splits)

lemma py_div_not_ValueError: "py_div x y \<noteq> Inl (ValueError m)"
  by (auto simp add: py_div_def split: option.splits)

lemma S12_not_ValueError: "S12 gammainc z Zth n_dens \<noteq> Inl (ValueError m)"
  using py_pow_not_ValueError
  by (auto simp add: S12_def bind_err_def Let_def split: sum.splits option.splits)

text \<open>
  C2: for every z, \<open>qD06\<close> raises if and only if \<open>mod\<close> is not in {'A','LN'} or \<open>SFR\<close> is
  not in {1,2,3}, and what it raises is the invalid-argument error (ValueError); in
  particular \<open>qD06(z, SFR=4)\<close> raises, \<open>qD06(z, SFR=1, mod='X')\<close> raises and
  \<open>qD06(z, SFR=1, mod='A')\<close> succeeds. No other function raises a validation error: eight
  functions have a result type with no error branch, and the three that can raise
  (\<open>HB06\<close>, \<open>BPL_z\<close>, and \<open>S12\<close> through \<open>Zth**2\<close>) raise only the arithmetic errors of
  Python's \<open>**\<close> and \<open>/\<close>, never a ValueError.
\<close>

theorem qD06_raises_iff:
  "((\<exists>e. qD06 z SFR mode IMF_norm = Inl e) \<longleftrightarrow> (mode \<notin> {''A'', ''LN''} \<or> SFR \<notin> {1, 2, 3}))
   \<and> (\<forall>e. qD06 z SFR mode IMF_norm = Inl e \<longrightarrow> (\<exists>m. e = ValueError m))
   \<and> (\<exists>m. qD06 z 4 ''A'' IMF_norm = Inl (ValueError m))
   \<and> (\<exists>m. qD06 z 1 ''X'' IMF_norm = Inl (ValueError m))
   \<and> (\<exists>r. qD06 z 1 ''A'' IMF_norm = Inr r)
   \<and> (\<forall>m. HB06 z z1 z2 a b c norm0 IMF_norm' \<noteq> Inl (ValueError m))
   \<and> (\<forall>m. BPL_z z a' b' zm nGRB0 eta0 av_jet_ang \<noteq> Inl (ValueError m))
   \<and> (\<forall>m. S12 gammainc z Zth n_dens \<noteq> Inl (ValueError m))"
proof (intro conjI)
  show "(\<exists>e. qD06 z SFR mode IMF_norm = Inl e) \<longleftrightarrow> (mode \<notin> {''A'', ''LN''} \<or> SFR \<notin> {1, 2, 3})"
    by (auto simp add: qD06_def bind_err_def Let_def)
  show "\<forall>e. qD06 z SFR mode IMF_norm = Inl e \<longrightarrow> (\<exists>m. e = ValueError m)"
    by (auto simp add: qD06_def bind_err_def Let_def split: if_splits)
  show "\<exists>m. qD06 z 4 ''A'' IMF_norm = Inl (ValueError m)"
    by (simp add: qD06_def bind_err_def)
  show "\<exists>m. qD06 z 1 ''X'' IMF_norm = Inl (ValueError m)"
    by (simp add: qD06_def bind_err_def)
  show "\<exists>r. qD06 z 1 ''A'' IMF_norm = Inr r"
    by (simp add: qD06_def bind_err_def Let_def)
  show "\<forall>m. HB06 z z1 z2 a b c norm0 IMF_norm' \<noteq> Inl (ValueError m)"
    using py_pow_not_ValueError
    by (auto simp add: HB06_def HB06_seg2_def HB06_seg3_def bind_err_def Let_def
          split: sum.splits)
  show "\<forall>m. BPL_z z a' b' zm nGRB0 eta0 av_jet_ang \<noteq> Inl (ValueError m)"
    using py_pow_not_ValueError py_div_not_ValueError
    by (auto simp add: BPL_z_def BPL_z_high_def bind_err_def Let_def split: sum.splits)
  show "\<forall>m. S12 gammainc z Zth n_dens \<noteq> Inl (ValueError m)"
    by (simp add: S12_not_ValueError)
qed

theorem qD06_raises_iff_witness:
  "(\<exists>e. qD06 (Arr [0, 1]) 0 ''LN'' 0.0122 = Inl e)
   \<and> (\<exists>e. qD06 (Arr [0, 1]) 2 ''ln'' 0.0122 = Inl e)"
  using qD06_raises_iff [of "Arr [0, 1]" 0 "''LN''" "0.0122"]
        qD06_raises_iff [of "Arr [0, 1]" 2 "''ln''" "0.0122"]
  by simp



lemma default_powers_in_range:
  assumes "p2 0 \<le> x" and "x \<le> p2 3" and "\<bar>y\<bar> \<le> 8"
  shows "in_range (x powr y)"
  using assms by (intro in_range_powr [of 0 x 3 y 8]) simp_all

text \<open>
  C4, as the spec states it, is false: it puts no condition on the breakpoint. In \<open>BPL_z\<close>
  with the default slopes and \<open>zm = -1\<close> the first branch is \<open>0.0 ** 2.07 = 0\<close> at the
  break, while the second is \<open>0.0 ** -1.36 * 0.0 ** 3.43\<close>, which is \<open>inf * 0 = nan\<close>.
\<close>

theorem BPL_z_branches_differ:
  "BPL_z_low (Sc (- 1)) 2.07 = Sc (Some 0)
   \<and> BPL_z_high (Sc (- 1)) 2.07 (- 1.36) (- 1) = Inr (Sc None)"
  by (simp add: BPL_z_low_def BPL_z_high_def bind_err_def py_pow_def np_defs f_pow_def
        real_pow_def pow_real_def rng_small)

text \<open>
  C4 (amended): as real numbers (in the code: up to the rounding of the float operations),
  the branch expressions of each piecewise function agree at the breakpoint, where the base
  of the powers is positive and no intermediate result overflows or underflows. In
  \<open>BPL_lum\<close> at logL = logLbreak both branches equal 1 for any slopeL, slopeH; in \<open>BExp\<close> at
  z = zm both equal \<open>exp(a*zm)\<close>; in \<open>BPL_z\<close> at z = zm with \<open>1 + zm > 0\<close> both equal
  \<open>(1+zm)^a\<close>; in \<open>HB06\<close> the first two segments agree at z1 and the last two at z2, with
  \<open>1 + z1 > 0\<close> and \<open>1 + z2 > 0\<close>.
\<close>

theorem branches_agree_at_break:
  "(let x = np_pow (flt 10) (np_sub (val (Sc logLbreak)) (flt logLbreak))
    in BPL_lum_low x slopeL = Sc (Some 1) \<and> BPL_lum_high x slopeH = Sc (Some 1))
   \<and> (list_all in_range
         [a * zm, exp (a * zm), b * zm, exp (b * zm), a - b, (a - b) * zm,
          exp ((a - b) * zm)] \<longrightarrow>
        BExp_low (Sc zm) a = Sc (Some (exp (a * zm)))
        \<and> BExp_high (Sc zm) a b zm = Sc (Some (exp (a * zm))))
   \<and> (0 < 1 + zm \<and> list_all in_range
         [1 + zm, a - b, (1 + zm) powr a, (1 + zm) powr b, (1 + zm) powr (a - b)] \<longrightarrow>
        BPL_z_low (Sc zm) a = Sc (Some ((1 + zm) powr a))
        \<and> BPL_z_high (Sc zm) a b zm = Inr (Sc (Some ((1 + zm) powr a))))
   \<and> (0 < 1 + z1 \<and> list_all in_range
         [1 + z1, a - b, (1 + z1) powr a, (1 + z1) powr b, (1 + z1) powr (a - b)] \<longrightarrow>
        HB06_seg1 (Sc z1) a = Sc (Some ((1 + z1) powr a))
        \<and> HB06_seg2 (Sc z1) z1 a b = Inr (Sc (Some ((1 + z1) powr a))))
   \<and> (0 < 1 + z1 \<and> 0 < 1 + z2 \<and> list_all in_range
         [1 + z1, 1 + z2, a - b, b - c, (1 + z1) powr (a - b), (1 + z2) powr (b - c),
          (1 + z2) powr b, (1 + z2) powr c, (1 + z2) powr b * (1 + z1) powr (a - b)] \<longrightarrow>
        HB06_seg2 (Sc z2) z1 a b = Inr (Sc (Some ((1 + z2) powr b * (1 + z1) powr (a - b))))
        \<and> HB06_seg3 (Sc z2) z1 z2 a b c
            = Inr (Sc (Some ((1 + z2) powr b * (1 + z1) powr (a - b)))))"
proof (intro conjI impI)
  show "let x = np_pow (flt 10) (np_sub (val (Sc logLbreak)) (flt logLbreak))
        in BPL_lum_low x slopeL = Sc (Some 1) \<and> BPL_lum_high x slopeH = Sc (Some 1)"
    by (simp add: BPL_lum_low_def BPL_lum_high_def np_defs f_pow_def)
next
  assume r: "list_all in_range
         [a * zm, exp (a * zm), b * zm, exp (b * zm), a - b, (a - b) * zm,
          exp ((a - b) * zm)]"
  show "BExp_low (Sc zm) a = Sc (Some (exp (a * zm)))"
    using r by (simp add: BExp_low_def np_defs rng_in_range)
  have "exp (b * zm) * exp ((a - b) * zm) = exp (a * zm)"
    by (simp add: exp_add [symmetric] algebra_simps)
  then show "BExp_high (Sc zm) a b zm = Sc (Some (exp (a * zm)))"
    using r by (simp add: BExp_high_def np_defs rng_in_range)
next
  assume r: "0 < 1 + zm \<and> list_all in_range
         [1 + zm, a - b, (1 + zm) powr a, (1 + zm) powr b, (1 + zm) powr (a - b)]"
  show "BPL_z_low (Sc zm) a = Sc (Some ((1 + zm) powr a))"
    using r by (simp add: BPL_z_low_def np_defs rng_in_range f_pow_pos)
  have "(1 + zm) powr b * (1 + zm) powr (a - b) = (1 + zm) powr a"
    by (simp add: powr_add [symmetric])
  then show "BPL_z_high (Sc zm) a b zm = Inr (Sc (Some ((1 + zm) powr a)))"
    using r
    by (simp add: BPL_z_high_def bind_err_def np_defs rng_in_range f_pow_pos py_pow_pos)
next
  assume r: "0 < 1 + z1 \<and> list_all in_range
         [1 + z1, a - b, (1 + z1) powr a, (1 + z1) powr b, (1 + z1) powr (a - b)]"
  show "HB06_seg1 (Sc z1) a = Sc (Some ((1 + z1) powr a))"
    using r by (simp add: HB06_seg1_def np_defs rng_in_range f_pow_pos)
  have "(1 + z1) powr b * (1 + z1) powr (a - b) = (1 + z1) powr a"
    by (simp add: powr_add [symmetric])
  then show "HB06_seg2 (Sc z1) z1 a b = Inr (Sc (Some ((1 + z1) powr a)))"
    using r
    by (simp add: HB06_seg2_def bind_err_def np_defs rng_in_range f_pow_pos py_pow_pos)
next
  assume r: "0 < 1 + z1 \<and> 0 < 1 + z2 \<and> list_all in_range
         [1 + z1, 1 + z2, a - b, b - c, (1 + z1) powr (a - b), (1 + z2) powr (b - c),
          (1 + z2) powr b, (1 + z2) powr c, (1 + z2) powr b * (1 + z1) powr (a - b)]"
  show "HB06_seg2 (Sc z2) z1 a b = Inr (Sc (Some ((1 + z2) powr b * (1 + z1) powr (a - b))))"
    using r
    by (simp add: HB06_seg2_def bind_err_def np_defs rng_in_range f_pow_pos py_pow_pos)
  have "(1 + z2) powr c * (1 + z2) powr (b - c) = (1 + z2) powr b"
    by (simp add: powr_add [symmetric])
  then show "HB06_seg3 (Sc z2) z1 z2 a b c
        = Inr (Sc (Some ((1 + z2) powr b * (1 + z1) powr (a - b))))"
    using r
    by (simp add: HB06_seg3_def bind_err_def np_defs rng_in_range f_pow_pos py_pow_pos)
qed

theorem branches_agree_at_break_witness:
  "BExp_low (Sc 1.9) 1.1 = Sc (Some (exp (1.1 * 1.9)))
   \<and> BExp_high (Sc 1.9) 1.1 (- 0.57) 1.9 = Sc (Some (exp (1.1 * 1.9)))
   \<and> BPL_z_low (Sc 3.11) 2.07 = Sc (Some ((1 + 3.11) powr 2.07))
   \<and> BPL_z_high (Sc 3.11) 2.07 (- 1.36) 3.11 = Inr (Sc (Some ((1 + 3.11) powr 2.07)))
   \<and> HB06_seg1 (Sc 0.97) 3.44 = Sc (Some ((1 + 0.97) powr 3.44))
   \<and> HB06_seg2 (Sc 0.97) 0.97 3.44 (- 0.26) = Inr (Sc (Some ((1 + 0.97) powr 3.44)))
   \<and> HB06_seg2 (Sc 4.48) 0.97 3.44 (- 0.26)
       = Inr (Sc (Some ((1 + 4.48) powr (- 0.26) * (1 + 0.97) powr (3.44 - - 0.26))))
   \<and> HB06_seg3 (Sc 4.48) 0.97 4.48 3.44 (- 0.26) (- 7.8)
       = Inr (Sc (Some ((1 + 4.48) powr (- 0.26) * (1 + 0.97) powr (3.44 - - 0.26))))"
proof -
  have e: "list_all in_range
         [1.1 * 1.9, exp (1.1 * 1.9), - 0.57 * 1.9, exp (- 0.57 * 1.9), 1.1 - - 0.57,
          (1.1 - - 0.57) * 1.9, exp ((1.1 - - 0.57) * 1.9)]"
    by (simp add: in_range_small in_range_exp)
  have p: "in_range (x powr y)" if "x \<in> {1.97, 4.11, 5.48}" and "\<bar>y\<bar> \<le> 8" for x y :: real
    using that by (intro default_powers_in_range) (auto simp add: p2_def)
  have z: "0 < 1 + (3.11 :: real) \<and> list_all in_range
         [1 + 3.11, 2.07 - - 1.36, (1 + 3.11) powr 2.07, (1 + 3.11) powr (- 1.36),
          (1 + 3.11) powr (2.07 - - 1.36)]"
    using p [of "4.11" "2.07"] p [of "4.11" "- 1.36"] p [of "4.11" "3.43"]
    by (simp add: in_range_small)
  have h1: "0 < 1 + (0.97 :: real) \<and> list_all in_range
         [1 + 0.97, 3.44 - - 0.26, (1 + 0.97) powr 3.44, (1 + 0.97) powr (- 0.26),
          (1 + 0.97) powr (3.44 - - 0.26)]"
    using p [of "1.97" "3.44"] p [of "1.97" "- 0.26"] p [of "1.97" "3.7"]
    by (simp add: in_range_small)
  have "p2 (- 3) \<le> 5.48 powr (- 0.26)" and "5.48 powr (- 0.26) \<le> p2 3"
    using powr_p2_bounds [of 0 "5.48" 3 "- 0.26" 1] by (simp_all add: p2_def)
  moreover have "p2 (- 4) \<le> 1.97 powr 3.7" and "1.97 powr 3.7 \<le> p2 4"
    using powr_p2_bounds [of 0 "1.97" 1 "3.7" 4] by (simp_all add: p2_def)
  ultimately have "p2 (- 3) * p2 (- 4) \<le> 5.48 powr (- 0.26) * 1.97 powr 3.7"
    and "5.48 powr (- 0.26) * 1.97 powr 3.7 \<le> p2 3 * p2 4"
    by (auto intro!: mult_mono)
  then have pr: "in_range (5.48 powr (- 0.26) * 1.97 powr 3.7)"
    unfolding p2_mult by (rule in_range_between) simp_all
  have h2: "0 < 1 + (0.97 :: real) \<and> 0 < 1 + (4.48 :: real) \<and> list_all in_range
         [1 + 0.97, 1 + 4.48, 3.44 - - 0.26, - 0.26 - - 7.8, (1 + 0.97) powr (3.44 - - 0.26),
          (1 + 4.48) powr (- 0.26 - - 7.8), (1 + 4.48) powr (- 0.26), (1 + 4.48) powr (- 7.8),
          (1 + 4.48) powr (- 0.26) * (1 + 0.97) powr (3.44 - - 0.26)]"
    using p [of "1.97" "3.7"] p [of "5.48" "7.54"] p [of "5.48" "- 0.26"] p [of "5.48" "- 7.8"] pr
    by (simp add: in_range_small)
  note t = branches_agree_at_break [where zm = "1.9" and a = "1.1" and b = "- 0.57",
      THEN conjunct2, THEN conjunct1, rule_format, OF e]
  note u = branches_agree_at_break [where zm = "3.11" and a = "2.07" and b = "- 1.36",
      THEN conjunct2, THEN conjunct2, THEN conjunct1, rule_format, OF z]
  note v = branches_agree_at_break [where ?z1.0 = "0.97" and a = "3.44" and b = "- 0.26",
      THEN conjunct2, THEN conjunct2, THEN conjunct2, THEN conjunct1, rule_format, OF h1]
  note w = branches_agree_at_break [where ?z1.0 = "0.97" and ?z2.0 = "4.48" and a = "3.44"
      and b = "- 0.26" and c = "- 7.8",
      THEN conjunct2, THEN conjunct2, THEN conjunct2, THEN conjunct2, rule_format, OF h2]
  show ?thesis
    using t u v w by simp
qed

text \<open>
  C5: for every z, scalar or array, \<open>S12(z)\<close> with \<open>Zth=None\<close> and \<open>n_dens=None\<close> returns
  exactly \<open>Li08(z)\<close> with \<open>Li08\<close>'s own default parameters.
\<close>

theorem S12_no_modifier_is_Li08:
  "S12 gammainc z None None = Inr (Li08 z 0.0157 0.118 3.23 4.66 0.007422)"
  by (simp add: S12_def)

theorem S12_no_modifier_is_Li08_witness:
  "S12 (\<lambda>a x. None) (Arr [0, 1, 2]) None None
     = Inr (Li08 (Arr [0, 1, 2]) 0.0157 0.118 3.23 4.66 0.007422)"
  by (rule S12_no_modifier_is_Li08)

text \<open>
  C6: for every z and identical a, b, c, d, IMF_norm, \<open>MD14\<close> equals \<open>Rob15\<close> whatever
  is passed for a_err, b_err, c_err, d_err.
\<close>

theorem MD14_eq_Rob15:
  "MD14 z a b c d IMF_norm = Rob15 z a b c d a_err b_err c_err d_err IMF_norm"
  by (simp add: MD14_def Rob15_def)

theorem MD14_eq_Rob15_witness:
  "MD14 (Arr [0, 3]) 0.015 2.7 2.9 5.6 0.007422
     = Rob15 (Arr [0, 3]) 0.015 2.7 2.9 5.6 1000 (- 5) 0 42 0.007422"
  by (rule MD14_eq_Rob15)

text \<open>
  C7: the output of \<open>HB06\<close> is the same for any two values of its \<open>IMF_norm\<close> parameter.
\<close>

theorem HB06_ignores_IMF_norm:
  "HB06 z z1 z2 a b c norm0 IMF_norm = HB06 z z1 z2 a b c norm0 IMF_norm'"
  by (simp add: HB06_def)

theorem HB06_ignores_IMF_norm_witness:
  "HB06 (Arr [0, 1, 5]) 0.97 4.48 3.44 (- 0.26) (- 7.8) 0.0197 0.007422
     = HB06 (Arr [0, 1, 5]) 0.97 4.48 3.44 (- 0.26) (- 7.8) 0.0197 1"
  by (rule HB06_ignores_IMF_norm)

text \<open>
  C9: when \<open>mod\<close> is invalid, \<open>qD06\<close> raises the \<open>mod\<close> error whatever \<open>SFR\<close> is; the \<open>SFR\<close>
  error is raised exactly when \<open>mod\<close> is valid and \<open>SFR\<close> is not 1, 2 or 3.
\<close>

theorem qD06_mod_checked_first:
  "(mode \<noteq> ''A'' \<and> mode \<noteq> ''LN'' \<longrightarrow>
      qD06 z SFR mode IMF_norm = Inl (ValueError ''mod must be A or LN''))
   \<and> (qD06 z SFR mode IMF_norm = Inl (ValueError ''SFR must be an int equal to 1, 2, or 3.'')
        \<longleftrightarrow> (mode = ''A'' \<or> mode = ''LN'') \<and> SFR \<notin> {1, 2, 3})"
  by (auto simp add: qD06_def bind_err_def Let_def)

theorem qD06_mod_checked_first_witness:
  "qD06 (Sc 1) 4 ''X'' 0.0122 = Inl (ValueError ''mod must be A or LN'')
   \<and> qD06 (Sc 1) 4 ''A'' 0.0122 = Inl (ValueError ''SFR must be an int equal to 1, 2, or 3.'')"
  using qD06_mod_checked_first [of "''X''" "Sc 1" 4 "0.0122"]
        qD06_mod_checked_first [of "''A''" "Sc 1" 4 "0.0122"]
  by simp

lemma py_pow_default_returns:
  assumes "p2 0 \<le> x" and "x \<le> p2 3" and "\<bar>y\<bar> \<le> 8"
  shows "\<exists>p. py_pow (Some x) (Some y) = Inr p"
proof -
  have "in_range (x powr y)"
    using assms by (intro in_range_powr [of 0 x 3 y 8]) simp_all
  moreover have "0 < x"
    using assms(1) by (rule p2_le_imp_pos)
  ultimately show ?thesis
    using py_pow_pos [of x y] by simp
qed

lemma HB06_default_returns:
  "\<exists>r. HB06 z 0.97 4.48 3.44 (- 0.26) (- 7.8) norm0 IMF_norm = Inr r"
proof -
  obtain p1 where p1: "py_pow (Some 1.97) (Some 3.7) = Inr p1"
    using py_pow_default_returns [of "1.97" "3.7"] by (auto simp add: p2_def)
  obtain p2 where p2: "py_pow (Some 5.48) (Some 7.54) = Inr p2"
    using py_pow_default_returns [of "5.48" "7.54"] by (auto simp add: p2_def)
  show ?thesis
    using p1 p2
    by (simp add: HB06_def HB06_seg2_def HB06_seg3_def bind_err_def Let_def rng_small)
qed

lemma BPL_z_default_returns:
  "\<exists>r. BPL_z z 2.07 (- 1.36) 3.11 nGRB0 1 1 = Inr r"
proof -
  obtain p where "py_pow (Some 4.11) (Some 3.43) = Inr p"
    using py_pow_default_returns [of "4.11" "3.43"] by (auto simp add: p2_def)
  then show ?thesis
    by (simp add: BPL_z_def BPL_z_high_def bind_err_def py_div_def Let_def rng_small)
qed

lemma HB06_returns_iff:
  "(\<exists>r. HB06 z z1 z2 a b c norm0 IMF_norm = Inr r) \<longleftrightarrow>
     (\<exists>p. py_pow (f_add (Some 1) (Some z1)) (f_sub (Some a) (Some b)) = Inr p)
     \<and> (\<exists>q. py_pow (f_add (Some 1) (Some z2)) (f_sub (Some b) (Some c)) = Inr q)"
  by (auto simp add: HB06_def HB06_seg2_def HB06_seg3_def bind_err_def Let_def split: sum.splits)

lemma BPL_z_returns_iff:
  "(\<exists>r. BPL_z z a b zm nGRB0 eta0 av_jet_ang = Inr r) \<longleftrightarrow>
     (\<exists>p. py_pow (f_add (Some 1) (Some zm)) (f_sub (Some a) (Some b)) = Inr p)
     \<and> f_mul (Some eta0) (Some av_jet_ang) \<noteq> Some 0"
  by (auto simp add: BPL_z_def BPL_z_high_def bind_err_def py_div_def Let_def
        split: sum.splits option.splits)

lemma S12_returns_iff:
  "(\<exists>r. S12 gammainc z Zth n_dens = Inr r) \<longleftrightarrow> (\<forall>Zt. Zth = Some Zt \<longrightarrow> Zt ^ 2 < 2 ^ 1024)"
  by (cases Zth) (auto simp add: S12_def bind_err_def py_pow_def pow_real_two Let_def)

lemma qD06_returns_iff:
  "(\<exists>r. qD06 z SFR mode IMF_norm = Inr r) \<longleftrightarrow> (mode = ''A'' \<or> mode = ''LN'') \<and> SFR \<in> {1, 2, 3}"
  by (auto simp add: qD06_def bind_err_def Let_def)

text \<open>
  C8: every one of the twelve functions is shape-preserving: whenever the function returns,
  its result has the shape of the independent variable, so an array of length N gives an
  array of length N and a scalar gives a scalar. Eight functions always return. \<open>HB06\<close> and
  \<open>BPL_z\<close> return exactly when the scalar powers (and in \<open>BPL_z\<close> the quotient) of their
  parameters do not raise, as with the default parameters; \<open>S12\<close> returns exactly when \<open>Zth\<close>
  is unset or \<open>Zth**2\<close> does not overflow; \<open>qD06\<close> returns exactly on valid arguments.
\<close>

theorem shape_preserving:
  "shape_of (Schechter_log z logLbreak slope) = shape_of z
   \<and> shape_of (BPL_lum z logLbreak slopeL slopeH) = shape_of z
   \<and> shape_of (SH03 z a b zm nu IMF_norm) = shape_of z
   \<and> (\<forall>r. HB06 z z1 z2 a b c norm0 IMF_norm = Inr r \<longrightarrow> shape_of r = shape_of z)
   \<and> ((\<exists>r. HB06 z z1 z2 a b c norm0 IMF_norm = Inr r) \<longleftrightarrow>
         (\<exists>p. py_pow (f_add (Some 1) (Some z1)) (f_sub (Some a) (Some b)) = Inr p)
         \<and> (\<exists>q. py_pow (f_add (Some 1) (Some z2)) (f_sub (Some b) (Some c)) = Inr q))
   \<and> (\<exists>r. HB06 z 0.97 4.48 3.44 (- 0.26) (- 7.8) norm0 IMF_norm = Inr r)
   \<and> shape_of (BExp z a b zm SFR_norm IMF_norm nGRB0_opt) = shape_of z
   \<and> (\<forall>r. S12 gammainc z Zth n_dens = Inr r \<longrightarrow> shape_of r = shape_of z)
   \<and> ((\<exists>r. S12 gammainc z Zth n_dens = Inr r) \<longleftrightarrow>
         (\<forall>Zt. Zth = Some Zt \<longrightarrow> Zt ^ 2 < 2 ^ 1024))
   \<and> shape_of (Li08 z a b c d IMF_norm) = shape_of z
   \<and> (\<forall>r. BPL_z z a b zm nGRB0 eta0 av_jet_ang = Inr r \<longrightarrow> shape_of r = shape_of z)
   \<and> ((\<exists>r. BPL_z z a b zm nGRB0 eta0 av_jet_ang = Inr r) \<longleftrightarrow>
         (\<exists>p. py_pow (f_add (Some 1) (Some zm)) (f_sub (Some a) (Some b)) = Inr p)
         \<and> f_mul (Some eta0) (Some av_jet_ang) \<noteq> Some 0)
   \<and> (\<exists>r. BPL_z z 2.07 (- 1.36) 3.11 nGRB0 1 1 = Inr r)
   \<and> shape_of (MD14 z a b c d IMF_norm) = shape_of z
   \<and> shape_of (Rob15 z a b c d a_err b_err c_err d_err IMF_norm) = shape_of z
   \<and> (\<forall>r. qD06 z SFR mode IMF_norm = Inr r \<longrightarrow> shape_of r = shape_of z)
   \<and> ((\<exists>r. qD06 z SFR mode IMF_norm = Inr r) \<longleftrightarrow>
         (mode = ''A'' \<or> mode = ''LN'') \<and> SFR \<in> {1, 2, 3})
   \<and> shape_of (D06 z a b c d IMF_norm) = shape_of z"
proof (intro conjI allI impI)
  show "shape_of (Schechter_log z logLbreak slope) = shape_of z"
    by (simp add: Schechter_log_elem shape_of_map_nd)
  show "shape_of (BPL_lum z logLbreak slopeL slopeH) = shape_of z"
    using BPL_lum_elem [of z logLbreak slopeL slopeH] by (auto simp add: shape_of_map_nd)
  show "shape_of (SH03 z a b zm nu IMF_norm) = shape_of z"
    by (simp add: SH03_elem shape_of_map_nd)
  show "shape_of (BExp z a b zm SFR_norm IMF_norm nGRB0_opt) = shape_of z"
    by (simp add: BExp_elem shape_of_map_nd)
  show "shape_of (Li08 z a b c d IMF_norm) = shape_of z"
    by (simp add: Li08_elem shape_of_map_nd)
  show "shape_of (MD14 z a b c d IMF_norm) = shape_of z"
    by (simp add: MD14_elem shape_of_map_nd)
  show "shape_of (Rob15 z a b c d a_err b_err c_err d_err IMF_norm) = shape_of z"
    by (simp add: Rob15_elem shape_of_map_nd)
  show "shape_of (D06 z a b c d IMF_norm) = shape_of z"
    using D06_elem [of z a b c d IMF_norm] by (auto simp add: shape_of_map_nd)
  show "\<exists>r. HB06 z 0.97 4.48 3.44 (- 0.26) (- 7.8) norm0 IMF_norm = Inr r"
    by (rule HB06_default_returns)
  show "\<exists>r. BPL_z z 2.07 (- 1.36) 3.11 nGRB0 1 1 = Inr r"
    by (rule BPL_z_default_returns)
  show "(\<exists>r. HB06 z z1 z2 a b c norm0 IMF_norm = Inr r) \<longleftrightarrow>
         (\<exists>p. py_pow (f_add (Some 1) (Some z1)) (f_sub (Some a) (Some b)) = Inr p)
         \<and> (\<exists>q. py_pow (f_add (Some 1) (Some z2)) (f_sub (Some b) (Some c)) = Inr q)"
    by (rule HB06_returns_iff)
  show "(\<exists>r. S12 gammainc z Zth n_dens = Inr r) \<longleftrightarrow>
         (\<forall>Zt. Zth = Some Zt \<longrightarrow> Zt ^ 2 < 2 ^ 1024)"
    by (rule S12_returns_iff)
  show "(\<exists>r. BPL_z z a b zm nGRB0 eta0 av_jet_ang = Inr r) \<longleftrightarrow>
         (\<exists>p. py_pow (f_add (Some 1) (Some zm)) (f_sub (Some a) (Some b)) = Inr p)
         \<and> f_mul (Some eta0) (Some av_jet_ang) \<noteq> Some 0"
    by (rule BPL_z_returns_iff)
  show "(\<exists>r. qD06 z SFR mode IMF_norm = Inr r) \<longleftrightarrow>
         (mode = ''A'' \<or> mode = ''LN'') \<and> SFR \<in> {1, 2, 3}"
    by (rule qD06_returns_iff)
next
  fix r assume "HB06 z z1 z2 a b c norm0 IMF_norm = Inr r"
  then show "shape_of r = shape_of z"
    by (auto dest: HB06_elem simp add: shape_of_map_nd)
next
  fix r assume "S12 gammainc z Zth n_dens = Inr r"
  then show "shape_of r = shape_of z"
    by (auto dest: S12_elem simp add: shape_of_map_nd)
next
  fix r assume "BPL_z z a b zm nGRB0 eta0 av_jet_ang = Inr r"
  then show "shape_of r = shape_of z"
    by (auto dest: BPL_z_elem simp add: shape_of_map_nd)
next
  fix r assume "qD06 z SFR mode IMF_norm = Inr r"
  then show "shape_of r = shape_of z"
    by (auto dest: qD06_elem simp add: shape_of_map_nd)
qed

theorem shape_preserving_witness:
  "shape_of (BPL_lum (Arr [51, 52, 53]) 52 1 2) = Some [3]
   \<and> shape_of (BPL_lum (Sc 51) 52 1 2) = Some []
   \<and> (\<exists>r. HB06 (Arr [0, 1, 5]) 0.97 4.48 3.44 (- 0.26) (- 7.8) 0.0197 0.007422 = Inr r
           \<and> shape_of r = Some [3])"
proof -
  note arr = shape_preserving [where z = "Arr [51, 52, 53]" and logLbreak = 52
      and slopeL = 1 and slopeH = 2, THEN conjunct2, THEN conjunct1]
  note sc = shape_preserving [where z = "Sc 51" and logLbreak = 52
      and slopeL = 1 and slopeH = 2, THEN conjunct2, THEN conjunct1]
  note hb = shape_preserving [where z = "Arr [0, 1, 5]" and ?z1.0 = "0.97" and ?z2.0 = "4.48"
      and a = "3.44" and b = "- 0.26" and c = "- 7.8" and ?norm0.0 = "0.0197"
      and IMF_norm = "0.007422", THEN conjunct2, THEN conjunct2, THEN conjunct2]
  obtain r
    where r: "HB06 (Arr [0, 1, 5]) 0.97 4.48 3.44 (- 0.26) (- 7.8) 0.0197 0.007422 = Inr r"
    using hb [THEN conjunct2, THEN conjunct2, THEN conjunct1] by blast
  with hb [THEN conjunct1] have "shape_of r = shape_of (Arr [0, 1, 5 :: real])"
    by blast
  with r have "\<exists>r. HB06 (Arr [0, 1, 5]) 0.97 4.48 3.44 (- 0.26) (- 7.8) 0.0197 0.007422 = Inr r
           \<and> shape_of r = Some [3]"
    by simp
  moreover have "shape_of (BPL_lum (Arr [51, 52, 53]) 52 1 2) = Some [3]"
    using arr by simp
  moreover have "shape_of (BPL_lum (Sc 51) 52 1 2) = Some []"
    using sc by simp
  ultimately show ?thesis by blast
qed







end
